theory Spec2Isabelle
  imports Complex_Main "HOL-Library.AList" "HOL-Library.Word"
begin

unbundle bit_operations_syntax

section \<open>Update sequencer: clearing the action queue when the fragment list changes\<close>

text \<open>
  The action type names of \<^verbatim>\<open>actions/updateActionTypes.js\<close>. A queued action is the object
  \<^verbatim>\<open>{type, params}\<close> built by \<^verbatim>\<open>Update.createQueuedAction\<close>; the parameters that the
  sequencer stores are the fragment list (CreateDiff, Repair), one fragment (CreateDirectories,
  DownloadFragment) and the progress flag.
\<close>

definition GET_REMOTE_HASHES :: string where "GET_REMOTE_HASHES = ''GetRemoteHashes''"
definition GET_LOCAL_HASHES :: string where "GET_LOCAL_HASHES = ''GetLocalHashes''"
definition REPAIR :: string where "REPAIR = ''Repair''"
definition LOAD_CONFIGURATION :: string where "LOAD_CONFIGURATION = ''LoadConfiguration''"
definition CREATE_DIFF :: string where "CREATE_DIFF = ''CreateDiff''"
definition WRITE_RELEASE_INFOS :: string where "WRITE_RELEASE_INFOS = ''WriteReleaseInfos''"
definition CHECK_CONFIGURATION :: string where "CHECK_CONFIGURATION = ''CheckConfiguration''"
definition CREATE_DIRECTORIES :: string where "CREATE_DIRECTORIES = ''CreateDirectories''"
definition DOWNLOAD_FRAGMENT :: string where "DOWNLOAD_FRAGMENT = ''DownloadFragment''"
definition DELETE_FILES :: string where "DELETE_FILES = ''DeleteFiles''"
definition CLEAR_EMPTY_DIRECTORIES :: string where "CLEAR_EMPTY_DIRECTORIES = ''ClearEmptyDirectories''"
definition SAVE_HASHES :: string where "SAVE_HASHES = ''SaveHashes''"

lemmas action_type_defs =
  GET_REMOTE_HASHES_def GET_LOCAL_HASHES_def REPAIR_def LOAD_CONFIGURATION_def CREATE_DIFF_def
  WRITE_RELEASE_INFOS_def CHECK_CONFIGURATION_def CREATE_DIRECTORIES_def DOWNLOAD_FRAGMENT_def
  DELETE_FILES_def CLEAR_EMPTY_DIRECTORIES_def SAVE_HASHES_def

record action_params =
  p_fragments :: "string list option"
  p_fragment :: "string option"
  p_shouldEmitProgress :: bool

record queued_action =
  a_type :: string
  a_params :: action_params

text \<open>
  \<^verbatim>\<open>Update.actionCanBeCanceledOnFragmentsChange(type)\<close>: the negation of what
  \<^verbatim>\<open>Array.find\<close> returns on the list of non-cancelable types. \<^verbatim>\<open>find\<close> returns the element
  found or \<^verbatim>\<open>undefined\<close>; \<^verbatim>\<open>!\<close> of a string is true for the empty string only.
\<close>

definition nonCancelableTypes :: "string list" where
  "nonCancelableTypes =
     [GET_REMOTE_HASHES, LOAD_CONFIGURATION, CHECK_CONFIGURATION, WRITE_RELEASE_INFOS]"

definition actionCanBeCanceledOnFragmentsChange :: "string \<Rightarrow> bool" where
  "actionCanBeCanceledOnFragmentsChange t =
     (case find (\<lambda>nonCancelableType. nonCancelableType = t) nonCancelableTypes of
        None \<Rightarrow> True
      | Some found \<Rightarrow> found = [])"

text \<open>
  \<^verbatim>\<open>Update.clearQueueOnFragmentsChange\<close>: the loop runs \<^verbatim>\<open>i\<close> from the last index down to
  0 and splices the cancelable actions out. \<open>clearQueueLoop n q\<close> is the loop with \<open>n\<close>
  indices still to visit (\<open>i = n - 1\<close>); \<^verbatim>\<open>splice(i, 1)\<close> is \<open>take i q @ drop (Suc i) q\<close>.
\<close>

fun clearQueueLoop :: "nat \<Rightarrow> queued_action list \<Rightarrow> queued_action list" where
  "clearQueueLoop 0 q = q"
| "clearQueueLoop (Suc i) q =
     (if actionCanBeCanceledOnFragmentsChange (a_type (q ! i))
      then clearQueueLoop i (take i q @ drop (Suc i) q)
      else clearQueueLoop i q)"

definition clearQueueOnFragmentsChange :: "queued_action list \<Rightarrow> queued_action list" where
  "clearQueueOnFragmentsChange q = clearQueueLoop (length q) q"

definition createQueuedAction :: "string \<Rightarrow> queued_action" where
  "createQueuedAction t =
     \<lparr>a_type = t,
      a_params = \<lparr>p_fragments = None, p_fragment = None, p_shouldEmitProgress = False\<rparr>\<rparr>"

section \<open>Fetcher: one download attempt and its response handler\<close>

text \<open>
  The executor of the fetch module (\<^verbatim>\<open>lib/fetch.js\<close>). The file system is seen through the
  temp file only: \<open>tmpFile\<close> is \<open>Some n\<close> when \<^verbatim>\<open>fs.existsSync(filepath)\<close> holds and
  \<^verbatim>\<open>fs.statSync(filepath).size\<close> is \<open>n\<close>. \<open>rangeHeader\<close> is the \<^verbatim>\<open>Range\<close> entry of the
  \<^verbatim>\<open>headers\<close> object (\<open>Some n\<close> stands for \<^verbatim>\<open>bytes=n-\<close>), \<open>rs\<close> tells whether a response
  stream is attached, \<open>requests\<close> lists the \<^verbatim>\<open>Range\<close> header of every request issued so far,
  the latest first.
\<close>

record fetch_state =
  tmpFile :: "nat option"
  rangeHeader :: "nat option"
  shouldResume :: bool
  dlSize :: nat
  rs :: bool
  requests :: "nat option list"

record response =
  status :: nat
  acceptRanges :: "string option"

datatype fetch_error = HttpCode nat | PartialContentNotSupported | UnlinkError string

datatype write_flag = Append | Truncate

datatype fetch_outcome =
    Ignored
  | Resolved
  | Rejected fetch_error
  | Retried
  | Streaming write_flag

text \<open>
  \<^verbatim>\<open>startElectronFetch\<close>: decide whether the attempt resumes a partial file, set the
  \<^verbatim>\<open>Range\<close> header when the file is not empty, and issue the request.
\<close>

definition startElectronFetch :: "fetch_state \<Rightarrow> fetch_state" where
  "startElectronFetch st =
     (let st1 = st\<lparr>shouldResume := (tmpFile st \<noteq> None)\<rparr>;
          st2 = (case tmpFile st of
                   None \<Rightarrow> st1
                 | Some n \<Rightarrow>
                     (let st1' = st1\<lparr>dlSize := n\<rparr>
                      in if n \<noteq> 0 then st1'\<lparr>rangeHeader := Some n\<rparr>
                         else st1'\<lparr>shouldResume := False\<rparr>))
      in st2\<lparr>requests := rangeHeader st2 # requests st2\<rparr>)"

text \<open>
  \<^verbatim>\<open>cleanAndRetry\<close>: drop the \<^verbatim>\<open>Range\<close> header, unlink the temp file and start again.
  \<open>unlinkError\<close> is the code of the error \<^verbatim>\<open>fs.unlinkSync\<close> throws, if any; \<^verbatim>\<open>ENOENT\<close> is
  ignored, any other error rejects the promise.
\<close>

definition cleanAndRetry :: "string option \<Rightarrow> fetch_state \<Rightarrow> fetch_outcome \<times> fetch_state" where
  "cleanAndRetry unlinkError st =
     (let st1 = st\<lparr>rangeHeader := None\<rparr>
      in case unlinkError of
           Some code \<Rightarrow>
             (if code \<noteq> ''ENOENT'' then (Rejected (UnlinkError code), st1)
              else (Retried, startElectronFetch st1))
         | None \<Rightarrow> (Retried, startElectronFetch (st1\<lparr>tmpFile := None\<rparr>)))"

text \<open>
  \<^verbatim>\<open>onResponse\<close>, up to the point where the response body is piped into the write stream.
  \<open>isSettled\<close> and \<open>isPaused\<close> are the two getters of the controllable promise.
\<close>

definition onResponse ::
  "nat \<Rightarrow> bool \<Rightarrow> bool \<Rightarrow> string option \<Rightarrow> response \<Rightarrow> fetch_state \<Rightarrow> fetch_outcome \<times> fetch_state"
where
  "onResponse expectedSize isSettled isPaused unlinkError res st =
     (if isSettled \<or> isPaused \<or> rs st then (Ignored, st)
      else if shouldResume st \<and> tmpFile st \<noteq> None \<and> tmpFile st = Some expectedSize then (Resolved, st)
      else if status res = 416 then cleanAndRetry unlinkError st
      else if status res \<noteq> 206 \<and> status res \<noteq> 200 then (Rejected (HttpCode (status res)), st)
      else if shouldResume st \<and> acceptRanges res \<noteq> Some ''bytes''
        then (Rejected PartialContentNotSupported, st)
      else (Streaming (if shouldResume st then Append else Truncate), st\<lparr>rs := True\<rparr>))"

definition initialFetchState :: "nat option \<Rightarrow> fetch_state" where
  "initialFetchState f =
     \<lparr>tmpFile = f, rangeHeader = None, shouldResume = (f \<noteq> None), dlSize = 0, rs = False,
      requests = []\<rparr>"

section \<open>Repository endpoints\<close>

text \<open>
  A request as handed to \<^verbatim>\<open>electronFetch\<close>: the URL and the headers object of the options.
  Reading an array past its end gives \<^verbatim>\<open>undefined\<close>, which string concatenation prints as
  \<^verbatim>\<open>undefined\<close>.
\<close>

record request =
  url :: string
  headers :: "(string \<times> string) list"

record repository =
  server :: string
  host :: string
  cachedServers :: "string list"




text \<open>
  \<^verbatim>\<open>Math.floor(Math.random() * cachedServers.length)\<close> is computed on IEEE 754 doubles. A
  non-negative double is \<open>mantissa \<times> 2\<^sup>-\<^sup>e\<close> for natural numbers \<open>mantissa < 2\<^sup>5\<^sup>3\<close> and
  \<open>e \<le> 1074\<close>; the value of \<^verbatim>\<open>Math.random()\<close> is such a number below 1, and the length of an
  array is a double as it stands. The product of the two is the exact product rounded to 53
  significant bits, to the nearest double and to the even one in a tie (it does not overflow,
  and it is exact when it has 53 bits or less, also in the subnormal range, because \<open>e\<close> is at
  most 1074). \<open>bits\<close> is the number of binary digits of a natural number.
\<close>

record double =
  mantissa :: nat
  exponent :: nat

fun bits :: "nat \<Rightarrow> nat" where
  "bits n = (if n = 0 then 0 else Suc (bits (n div 2)))"

definition roundedProduct :: "nat \<Rightarrow> nat \<Rightarrow> nat" where
  "roundedProduct m n =
     (let p = m * n
      in if bits p \<le> 53 then p
         else
           (let s = bits p - 53; q = p div 2 ^ s; rest = p mod 2 ^ s
            in if 2 * rest > 2 ^ s \<or> (2 * rest = 2 ^ s \<and> odd q) then (q + 1) * 2 ^ s
               else q * 2 ^ s))"

definition randomIndex :: "double \<Rightarrow> nat \<Rightarrow> nat" where
  "randomIndex r n = roundedProduct (mantissa r) n div 2 ^ exponent r"


text \<open>
  \<^verbatim>\<open>Repository.prototype.streamableRequest\<close>, which serves \<^verbatim>\<open>fetchJSON\<close> (the manifests) and
  \<^verbatim>\<open>getHash\<close>: the options passed to \<^verbatim>\<open>electronFetch\<close> hold a timeout and
  \<^verbatim>\<open>useElectronNet\<close>, and no headers object.
\<close>

definition streamableRequest :: "repository \<Rightarrow> string \<Rightarrow> request" where
  "streamableRequest repo subPath = \<lparr>url = server repo @ subPath, headers = []\<rparr>"


definition getHash :: "repository \<Rightarrow> string \<Rightarrow> string \<Rightarrow> request" where
  "getHash repo gameUid h =
     streamableRequest repo (''/'' @ gameUid @ ''/hashes/'' @ take 2 h @ ''/'' @ h)"

section \<open>Diff engine\<close>

text \<open>
  Manifests and diffs are JavaScript objects used as dictionaries. An object is modelled as the
  association list of its own properties, in the enumeration order of the keys: \<open>map_of\<close> is
  the test \<^verbatim>\<open>hasOwnProperty\<close> together with the read that follows it, \<open>AList.update\<close>
  overwrites a key in place or appends a new one at the end, \<open>AList.delete\<close> is \<^verbatim>\<open>delete\<close>,
  and \<open>AList.map_entry\<close> changes the value stored under a key that is present.

  A plain read \<^verbatim>\<open>obj[key]\<close> of a key that is no own property goes on to the prototype. All
  the objects here are plain objects (literals, or the result of \<^verbatim>\<open>JSON.parse\<close>), which inherit
  the members of \<^verbatim>\<open>Object.prototype\<close>: under one of their names the read gives a function
  (the prototype object itself for \<^verbatim>\<open>__proto__\<close>), which is truthy and has none of the
  properties the program reads from the entries of a manifest or a diff (\<^verbatim>\<open>files\<close>, \<^verbatim>\<open>hash\<close>,
  \<^verbatim>\<open>executable\<close> and so on are \<^verbatim>\<open>undefined\<close> on it). \<open>js_get\<close> is that read. The own
  properties are all objects, hence truthy.
\<close>

definition objectPrototypeNames :: "string list" where
  "objectPrototypeNames =
     [''constructor'', ''__defineGetter__'', ''__defineSetter__'', ''hasOwnProperty'',
      ''__lookupGetter__'', ''__lookupSetter__'', ''isPrototypeOf'', ''propertyIsEnumerable'',
      ''toString'', ''valueOf'', ''__proto__'', ''toLocaleString'']"

datatype 'a property = Own 'a | Inherited | Undefined

definition js_get :: "(string \<times> 'a) list \<Rightarrow> string \<Rightarrow> 'a property" where
  "js_get obj key =
     (case map_of obj key of
        Some v \<Rightarrow> Own v
      | None \<Rightarrow> if key \<in> set objectPrototypeNames then Inherited else Undefined)"

definition truthy :: "'a property \<Rightarrow> bool" where
  "truthy p \<longleftrightarrow> p \<noteq> Undefined"

text \<open>
  A loop whose body may throw: the first exception ends it.
\<close>

fun foldE :: "('s \<Rightarrow> 'a \<Rightarrow> 'e + 's) \<Rightarrow> 's \<Rightarrow> 'a list \<Rightarrow> 'e + 's" where
  "foldE f s [] = Inr s"
| "foldE f s (x # xs) = (case f s x of Inl e \<Rightarrow> Inl e | Inr s' \<Rightarrow> foldE f s' xs)"

record manifest_file =
  mf_hash :: string
  mf_size :: nat
  mf_executable :: bool

record pack =
  pk_size :: nat
  pk_hashes :: "string list"

type_synonym archive_info = "(string \<times> string \<times> nat) list"

record fragment =
  files :: "(string \<times> manifest_file) list"
  packs :: "(string \<times> pack) list option"
  archives :: "(string \<times> archive_info) list option"

type_synonym manifest = "(string \<times> fragment) list"

record pack_file =
  pf_hash :: string
  pf_size :: nat
  pf_executable :: bool

text \<open>
  A file entry of the diff. The three shapes the code builds share one record whose absent
  fields are \<open>None\<close>: the changed file of the first pass, the synthetic pack entry, and the
  deleted file \<^verbatim>\<open>{size: 0, hash: null}\<close>.
\<close>

record diff_file =
  isPack :: "bool option"
  download :: "bool option"
  updatePermissions :: "bool option"
  packFiles :: "(string \<times> pack_file) list option"
  df_hash :: "string option"
  df_size :: nat
  df_executable :: "bool option"

record hash_target =
  ht_fileName :: string
  ht_size :: nat
  ht_executable :: bool

text \<open>
  A bucket of the diff. What the first pass copies into \<^verbatim>\<open>archives\<close> is the result of a
  plain read of the remote fragment's \<^verbatim>\<open>archives\<close>, an archive description or an inherited
  member.
\<close>

record diff_fragment =
  d_files :: "(string \<times> diff_file) list"
  d_hashes :: "(string \<times> hash_target list) list"
  d_archives :: "(string \<times> archive_info property) list"

type_synonym diff = "(string \<times> diff_fragment) list"

text \<open>The state of a \<^verbatim>\<open>DiffHelper\<close>: its private copy of the local hashes and the diff.\<close>

record diff_helper =
  localHashes :: manifest
  the_diff :: diff

text \<open>
  The two exceptions of the diff: the error \<^verbatim>\<open>verifyFragmentsList\<close> throws, and the
  \<^verbatim>\<open>TypeError\<close> of reading or writing a property of \<^verbatim>\<open>undefined\<close>. \<^verbatim>\<open>createPromise\<close> runs
  inside the executor of its promise, so either one rejects the promise.
\<close>

datatype diff_error = FragmentNotFound string | PropertyOfUndefined

definition PACK_FILE_RATIO :: real where
  "PACK_FILE_RATIO = 0.5"

text \<open>
  \<^verbatim>\<open>updateHelper.verifyFragmentsList\<close>: throws at the first requested fragment for which
  \<^verbatim>\<open>remote[fragment]\<close> is falsy.
\<close>

definition verifyFragmentsList :: "string list \<Rightarrow> manifest \<Rightarrow> diff_error + unit" where
  "verifyFragmentsList fragments remote =
     (case find (\<lambda>fragment. \<not> truthy (js_get remote fragment)) fragments of
        Some fragment \<Rightarrow> Inl (FragmentNotFound fragment)
      | None \<Rightarrow> Inr ())"

text \<open>
  \<^verbatim>\<open>updateHelper.isFileMarkedForDownload\<close>: true as soon as, for some fragment of the diff,
  \<^verbatim>\<open>files[fileName]\<close> is truthy.
\<close>

definition isFileMarkedForDownload :: "diff \<Rightarrow> string \<Rightarrow> bool" where
  "isFileMarkedForDownload fragmentsToDownload fileName =
     list_ex (\<lambda>(fragmentName, fr). truthy (js_get (d_files fr) fileName)) fragmentsToDownload"

definition createDeletedFile :: diff_file where
  "createDeletedFile =
     \<lparr>isPack = None, download = None, updatePermissions = None, packFiles = None,
      df_hash = None, df_size = 0, df_executable = None\<rparr>"

text \<open>
  \<^verbatim>\<open>createEmptyFragmentIfNeeded\<close>: the bucket is created when \<^verbatim>\<open>this.diff[fragment]\<close> is falsy.
\<close>

definition createEmptyFragmentIfNeeded :: "string \<Rightarrow> diff \<Rightarrow> diff" where
  "createEmptyFragmentIfNeeded fragment d =
     (if truthy (js_get d fragment) then d
      else AList.update fragment \<lparr>d_files = [], d_hashes = [], d_archives = []\<rparr> d)"

text \<open>
  The assignments \<^verbatim>\<open>this.diff[fragmentName].files[fileName] = ...\<close> of the first and the last
  pass change the bucket of the fragment. When \<^verbatim>\<open>this.diff\<close> has no own property of that name,
  \<^verbatim>\<open>this.diff[fragmentName]\<close> is \<^verbatim>\<open>undefined\<close> or an inherited member, \<^verbatim>\<open>files\<close> of it is
  \<^verbatim>\<open>undefined\<close>, and the assignment throws a \<^verbatim>\<open>TypeError\<close>.
\<close>

definition inBucket :: "string \<Rightarrow> (diff_fragment \<Rightarrow> diff_fragment) \<Rightarrow> diff \<Rightarrow> diff_error + diff" where
  "inBucket fragmentName change d =
     (case map_of d fragmentName of
        None \<Rightarrow> Inl PropertyOfUndefined
      | Some _ \<Rightarrow> Inr (AList.map_entry fragmentName change d))"

text \<open>
  The body of the \<^verbatim>\<open>if (!sameHash || !sameExecutable)\<close> branch, on the bucket of the fragment:
  the entry of the changed file, \<^verbatim>\<open>remoteFragment.archives[fileName]\<close> when the remote fragment
  has archives and that read is truthy, and the target of the file in the inverted index
  \<^verbatim>\<open>hashes\<close>.
\<close>

definition addChangedFile ::
  "fragment \<Rightarrow> string \<Rightarrow> manifest_file \<Rightarrow> bool \<Rightarrow> bool \<Rightarrow> diff_fragment \<Rightarrow> diff_fragment"
where
  "addChangedFile remoteFragment fileName remoteFile sameHash sameExecutable fd =
     (let fd1 = fd\<lparr>d_files := AList.update fileName
                   \<lparr>isPack = Some False, download = Some (\<not> sameHash),
                    updatePermissions = Some (\<not> sameExecutable), packFiles = None,
                    df_hash = Some (mf_hash remoteFile), df_size = mf_size remoteFile,
                    df_executable = Some (mf_executable remoteFile)\<rparr> (d_files fd)\<rparr>;
          fd2 = (case archives remoteFragment of
                   None \<Rightarrow> fd1
                 | Some ars \<Rightarrow>
                     (if truthy (js_get ars fileName)
                      then fd1\<lparr>d_archives := AList.update fileName (js_get ars fileName)
                                                (d_archives fd1)\<rparr>
                      else fd1));
          target = \<lparr>ht_fileName = fileName, ht_size = mf_size remoteFile,
                    ht_executable = mf_executable remoteFile\<rparr>
      in fd2\<lparr>d_hashes := AList.update (mf_hash remoteFile)
                 ((case map_of (d_hashes fd2) (mf_hash remoteFile) of
                     None \<Rightarrow> [] | Some ts \<Rightarrow> ts) @ [target]) (d_hashes fd2)\<rparr>)"

text \<open>
  One turn of the inner loop of \<^verbatim>\<open>findFilesToDownloadAndFragmentsToDelete\<close>. \<open>win32\<close> is
  \<^verbatim>\<open>process.platform === 'win32'\<close>. \<^verbatim>\<open>localFragment\<close> and \<^verbatim>\<open>localFile\<close> are plain reads:
  when \<^verbatim>\<open>localFragment\<close> is an inherited member, \<^verbatim>\<open>localFragment.files\<close> is \<^verbatim>\<open>undefined\<close> and
  the read of \<^verbatim>\<open>localFragment.files[fileName]\<close> throws; when \<^verbatim>\<open>localFile\<close> is an inherited
  member, it is truthy and its \<^verbatim>\<open>hash\<close> and \<^verbatim>\<open>executable\<close> are \<^verbatim>\<open>undefined\<close>.
\<close>

definition processRemoteFile ::
  "bool \<Rightarrow> bool \<Rightarrow> fragment \<Rightarrow> string \<Rightarrow> diff_helper \<Rightarrow> string \<times> manifest_file
     \<Rightarrow> diff_error + diff_helper"
where
  "processRemoteFile win32 isFragmentIgnored remoteFragment fragmentName st entry =
     (let fileName = fst entry; remoteFile = snd entry;
          localFragment = js_get (localHashes st) fragmentName
      in case localFragment of
           Inherited \<Rightarrow> Inl PropertyOfUndefined
         | _ \<Rightarrow>
           let localFile = (case localFragment of Own lf \<Rightarrow> js_get (files lf) fileName
                            | _ \<Rightarrow> Undefined)
           in if truthy localFile \<and> isFragmentIgnored then Inr st
              else
                let sameHash = (case localFile of Own l \<Rightarrow> mf_hash remoteFile = mf_hash l
                                | _ \<Rightarrow> False);
                    sameExecutable =
                      (if \<not> win32 \<and> truthy localFile
                       then (case localFile of Own l \<Rightarrow> mf_executable remoteFile = mf_executable l
                             | _ \<Rightarrow> mf_executable remoteFile = False)
                       else True)
                in case (if \<not> sameHash \<or> \<not> sameExecutable
                         then inBucket fragmentName
                                (addChangedFile remoteFragment fileName remoteFile sameHash
                                   sameExecutable) (the_diff st)
                         else Inr (the_diff st)) of
                     Inl e \<Rightarrow> Inl e
                   | Inr d \<Rightarrow>
                       let st1 = st\<lparr>the_diff := d\<rparr>
                       in Inr (case localFragment of
                                 Own _ \<Rightarrow>
                                   st1\<lparr>localHashes := AList.map_entry fragmentName
                                         (\<lambda>lf. lf\<lparr>files := AList.delete fileName (files lf),
                                                  archives := map_option (AList.delete fileName)
                                                                (archives lf)\<rparr>)
                                         (localHashes st1)\<rparr>
                               | _ \<Rightarrow> st1))"

definition processRemoteFragment ::
  "bool \<Rightarrow> string list \<Rightarrow> diff_helper \<Rightarrow> string \<times> fragment \<Rightarrow> diff_error + diff_helper"
where
  "processRemoteFragment win32 fragments st entry =
     (let fragmentName = fst entry; remoteFragment = snd entry;
          localFragment = js_get (localHashes st) fragmentName;
          isFragmentIgnored = (fragmentName \<notin> set fragments)
      in if \<not> truthy localFragment \<and> isFragmentIgnored then Inr st
         else foldE (processRemoteFile win32 isFragmentIgnored remoteFragment fragmentName)
                (st\<lparr>the_diff := createEmptyFragmentIfNeeded fragmentName (the_diff st)\<rparr>)
                (files remoteFragment))"

definition findFilesToDownloadAndFragmentsToDelete ::
  "bool \<Rightarrow> string list \<Rightarrow> manifest \<Rightarrow> diff_helper \<Rightarrow> diff_error + diff_helper"
where
  "findFilesToDownloadAndFragmentsToDelete win32 fragments remoteHashes st =
     foldE (processRemoteFragment win32 fragments) st remoteHashes"

text \<open>The pack pass.\<close>

definition getFilesInPack :: "pack \<Rightarrow> diff_fragment \<Rightarrow> (string \<times> pack_file) list" where
  "getFilesInPack pk fragmentDiff =
     foldl (\<lambda>filesInPack fileHash.
              case map_of (d_hashes fragmentDiff) fileHash of
                None \<Rightarrow> filesInPack
              | Some targets \<Rightarrow>
                  foldl (\<lambda>acc t. AList.update (ht_fileName t)
                                   \<lparr>pf_hash = fileHash, pf_size = ht_size t,
                                    pf_executable = ht_executable t\<rparr> acc)
                    filesInPack targets)
       [] (pk_hashes pk)"

definition mustDownloadPack :: "pack \<Rightarrow> (string \<times> pack_file) list \<Rightarrow> bool" where
  "mustDownloadPack pk filesInPack \<longleftrightarrow>
     real (length filesInPack) > real (length (pk_hashes pk)) * PACK_FILE_RATIO"

definition checkPack :: "diff_fragment \<Rightarrow> string \<Rightarrow> pack \<Rightarrow> diff_fragment" where
  "checkPack fragmentDiff packHash pk =
     (let filesInPack = getFilesInPack pk fragmentDiff
      in if mustDownloadPack pk filesInPack
         then
           let fs1 = foldl (\<lambda>fs fileName.
                              AList.map_entry fileName (\<lambda>e. e\<lparr>download := Some False\<rparr>) fs)
                       (d_files fragmentDiff) (map fst filesInPack)
           in fragmentDiff\<lparr>d_files := AList.update packHash
                \<lparr>isPack = Some True, download = Some True, updatePermissions = None,
                 packFiles = Some filesInPack, df_hash = Some packHash, df_size = pk_size pk,
                 df_executable = None\<rparr> fs1\<rparr>
         else fragmentDiff)"

definition checkPacksInFragment :: "(string \<times> pack) list \<Rightarrow> diff_fragment \<Rightarrow> diff_fragment" where
  "checkPacksInFragment pks fragmentDiff =
     foldl (\<lambda>fd entry. checkPack fd (fst entry) (snd entry)) fragmentDiff pks"

definition checkPacks :: "manifest \<Rightarrow> diff \<Rightarrow> diff" where
  "checkPacks remoteHashes d =
     foldl (\<lambda>d entry.
              case packs (snd entry) of
                None \<Rightarrow> d
              | Some remotePacks \<Rightarrow>
                  (if map_of d (fst entry) \<noteq> None
                   then AList.map_entry (fst entry) (checkPacksInFragment remotePacks) d
                   else d))
       d remoteHashes"

text \<open>The deletion pass.\<close>

definition markFile :: "string \<Rightarrow> diff \<Rightarrow> string \<Rightarrow> diff_error + diff" where
  "markFile fragmentName d fileName =
     (if \<not> isFileMarkedForDownload d fileName
      then inBucket fragmentName
             (\<lambda>fr. fr\<lparr>d_files := AList.update fileName createDeletedFile (d_files fr)\<rparr>) d
      else Inr d)"

definition markFragment :: "diff \<Rightarrow> string \<times> fragment \<Rightarrow> diff_error + diff" where
  "markFragment d entry =
     foldE (markFile (fst entry)) (createEmptyFragmentIfNeeded (fst entry) d)
       (map fst (files (snd entry)))"

definition markRemainingFilesToBeDeleted :: "manifest \<Rightarrow> diff \<Rightarrow> diff_error + diff" where
  "markRemainingFilesToBeDeleted local d = foldE markFragment d local"

text \<open>\<^verbatim>\<open>DiffHelper.createPromise\<close>: the promise resolves with the diff or rejects with the error.\<close>

definition createPromise :: "bool \<Rightarrow> string list \<Rightarrow> manifest \<Rightarrow> manifest \<Rightarrow> diff_error + diff" where
  "createPromise win32 fragments localHashes0 remoteHashes =
     (case verifyFragmentsList fragments remoteHashes of
        Inl e \<Rightarrow> Inl e
      | Inr _ \<Rightarrow>
          (case findFilesToDownloadAndFragmentsToDelete win32 fragments remoteHashes
                  \<lparr>localHashes = localHashes0, the_diff = []\<rparr> of
             Inl e \<Rightarrow> Inl e
           | Inr st1 \<Rightarrow>
               markRemainingFilesToBeDeleted (localHashes st1)
                 (checkPacks remoteHashes (the_diff st1))))"











section \<open>Repair action\<close>



text \<open>
  The \<^verbatim>\<open>hash\<close> of an entry of the table is a string, or the number \<^verbatim>\<open>0\<close>.
\<close>

datatype file_hash = HashString string | HashZero

record repaired_file =
  r_hash :: file_hash
  r_executable :: "bool option"

record repair_fragment =
  r_files :: "(string \<times> repaired_file) list"

type_synonym repair_hashes = "(string \<times> repair_fragment) list"

record repair_state =
  hashes :: repair_hashes
  filesProgress :: nat
  filesToRepair :: "(string \<times> string) list"
  notified :: "(nat \<times> nat) list"













section \<open>Controllable promise\<close>

text \<open>
  \<^verbatim>\<open>lib/controllablePromise.js\<close>. The object is a record of its fields; the event loop is made
  explicit by two queues: \<open>timers\<close> holds the values of the \<^verbatim>\<open>setTimeout\<close> callbacks that
  \<^verbatim>\<open>resolve(value)\<close> has scheduled, \<open>microtasks\<close> the \<^verbatim>\<open>then\<close>/\<^verbatim>\<open>catch\<close> callbacks of the
  promises that \<^verbatim>\<open>pause()\<close>, \<^verbatim>\<open>resume()\<close> and \<^verbatim>\<open>cancel()\<close> return, once these are settled.
  \<open>promise\<close> is the settlement of \<^verbatim>\<open>this.promise\<close>. \<open>resolveMain\<close> is \<open>None\<close> for the initial
  no-op and \<open>Some v\<close> for the closure \<^verbatim>\<open>fulfillMain\<close> that a deferred \<^verbatim>\<open>resolve(v)\<close> stored.
  \<open>pauseSlot\<close> (\<open>cancelSlot\<close>) tells whether \<^verbatim>\<open>this.resolvePause\<close> and \<^verbatim>\<open>this.rejectPause\<close>
  (\<^verbatim>\<open>this.resolveCancel\<close>, \<^verbatim>\<open>this.rejectCancel\<close>) are the callbacks of a promise that is not
  settled yet; calling the callbacks of a settled promise, or the initial no-ops, does nothing.
  \<open>pauseFn\<close>, \<open>resumeFn\<close>, \<open>cancelFn\<close> tell whether the executor has registered a handler, and
  \<open>handlerPending\<close> lists the operations whose callbacks were handed to a handler that has not
  called them yet.
\<close>

datatype cp_state = STATE_RESUMED | STATE_PAUSED | STATE_FULFILLED | STATE_CANCELED | STATE_REJECTED

datatype cp_error =
    ControllablePromiseCancelError
  | ControllablePromisePreconditionError string
  | SettledDuringCancelHandler
  | ExecutorError string

datatype 'v settlement = Pending | Fulfilled 'v | RejectedWith cp_error

datatype cp_op = OpPause | OpResume | OpCancel

datatype mtask = Then cp_op | Catch cp_op cp_error

record 'v cp =
  state :: cp_state
  lock :: bool
  promise :: "'v settlement"
  resolveMain :: "'v option"
  pauseSlot :: bool
  cancelSlot :: bool
  pauseFn :: bool
  resumeFn :: bool
  cancelFn :: bool
  handlerPending :: "cp_op list"
  timers :: "'v list"
  microtasks :: "mtask list"

datatype 'v cp_event =
    ExecResolve 'v
  | ExecReject string
  | ExecOnPause
  | ExecOnResume
  | ExecOnCancel
  | TimerFires
  | RunMicrotask
  | CallPause
  | CallResume
  | CallCancel
  | HandlerResolves cp_op
  | HandlerRejects cp_op string

definition newControllablePromise :: "'v cp" where
  "newControllablePromise =
     \<lparr>state = STATE_RESUMED, lock = False, promise = Pending, resolveMain = None,
      pauseSlot = False, cancelSlot = False, pauseFn = False, resumeFn = False, cancelFn = False,
      handlerPending = [], timers = [], microtasks = []\<rparr>"

definition isPaused :: "'v cp \<Rightarrow> bool" where "isPaused s \<longleftrightarrow> state s = STATE_PAUSED"
definition isResumed :: "'v cp \<Rightarrow> bool" where "isResumed s \<longleftrightarrow> state s = STATE_RESUMED"
definition isCanceled :: "'v cp \<Rightarrow> bool" where "isCanceled s \<longleftrightarrow> state s = STATE_CANCELED"
definition isSettled :: "'v cp \<Rightarrow> bool" where
  "isSettled s \<longleftrightarrow> state s = STATE_CANCELED \<or> state s = STATE_REJECTED \<or> state s = STATE_FULFILLED"

text \<open>The two callbacks of \<^verbatim>\<open>this.promise\<close>; a settled promise ignores them.\<close>

definition callResolveMainPromise :: "'v \<Rightarrow> 'v cp \<Rightarrow> 'v cp" where
  "callResolveMainPromise v s = (if promise s = Pending then s\<lparr>promise := Fulfilled v\<rparr> else s)"

definition rejectMain :: "cp_error \<Rightarrow> 'v cp \<Rightarrow> 'v cp" where
  "rejectMain e s = (if promise s = Pending then s\<lparr>promise := RejectedWith e\<rparr> else s)"

text \<open>\<^verbatim>\<open>fulfillMain\<close>: \<^verbatim>\<open>this.state = STATE_FULFILLED; resolveMain(value)\<close>.\<close>

definition fulfillMain :: "'v \<Rightarrow> 'v cp \<Rightarrow> 'v cp" where
  "fulfillMain v s = callResolveMainPromise v (s\<lparr>state := STATE_FULFILLED\<rparr>)"

definition callResolvePause :: "'v cp \<Rightarrow> 'v cp" where
  "callResolvePause s =
     (if pauseSlot s then s\<lparr>pauseSlot := False, microtasks := microtasks s @ [Then OpPause]\<rparr> else s)"

definition callRejectPause :: "cp_error \<Rightarrow> 'v cp \<Rightarrow> 'v cp" where
  "callRejectPause e s =
     (if pauseSlot s then s\<lparr>pauseSlot := False, microtasks := microtasks s @ [Catch OpPause e]\<rparr>
      else s)"

definition callResolveCancel :: "'v cp \<Rightarrow> 'v cp" where
  "callResolveCancel s =
     (if cancelSlot s then s\<lparr>cancelSlot := False, microtasks := microtasks s @ [Then OpCancel]\<rparr>
      else s)"

definition callRejectCancel :: "cp_error \<Rightarrow> 'v cp \<Rightarrow> 'v cp" where
  "callRejectCancel e s =
     (if cancelSlot s then s\<lparr>cancelSlot := False, microtasks := microtasks s @ [Catch OpCancel e]\<rparr>
      else s)"

text \<open>An operation promise that is rejected on the spot with a precondition error.\<close>

definition rejectOp :: "cp_op \<Rightarrow> string \<Rightarrow> 'v cp \<Rightarrow> 'v cp" where
  "rejectOp opn msg s =
     s\<lparr>microtasks := microtasks s @ [Catch opn (ControllablePromisePreconditionError msg)]\<rparr>"

definition resolveOp :: "cp_op \<Rightarrow> 'v cp \<Rightarrow> 'v cp" where
  "resolveOp opn s = s\<lparr>microtasks := microtasks s @ [Then opn]\<rparr>"

text \<open>The \<^verbatim>\<open>resolve\<close> and \<^verbatim>\<open>reject\<close> closures handed to the executor.\<close>

definition execResolve :: "'v \<Rightarrow> 'v cp \<Rightarrow> 'v cp" where
  "execResolve v s =
     (let s1 = callResolvePause s; s2 = callResolveCancel s1
      in s2\<lparr>timers := timers s2 @ [v]\<rparr>)"

definition timerFires :: "'v cp \<Rightarrow> 'v cp" where
  "timerFires s =
     (case timers s of
        [] \<Rightarrow> s
      | v # rest \<Rightarrow>
          (let s1 = s\<lparr>timers := rest\<rparr>
           in if isCanceled s1 then rejectMain ControllablePromiseCancelError s1
              else if \<not> isPaused s1 then fulfillMain v s1
              else s1\<lparr>resolveMain := Some v\<rparr>))"

definition execReject :: "string \<Rightarrow> 'v cp \<Rightarrow> 'v cp" where
  "execReject msg s =
     (let s1 = callRejectPause (ExecutorError msg) s;
          s2 = callRejectCancel (ExecutorError msg) s1
      in rejectMain (ExecutorError msg) (s2\<lparr>state := STATE_REJECTED\<rparr>))"

text \<open>The synchronous part of \<^verbatim>\<open>pause()\<close>, \<^verbatim>\<open>resume()\<close> and \<^verbatim>\<open>cancel()\<close>.\<close>

definition callPause :: "'v cp \<Rightarrow> 'v cp" where
  "callPause s =
     (if lock s then rejectOp OpPause ''Operation in progress'' s
      else if isCanceled s then rejectOp OpPause ''Promise was canceled'' s
      else if isSettled s then rejectOp OpPause ''Promise was settled'' s
      else if isPaused s then resolveOp OpPause s
      else if \<not> pauseFn s then s\<lparr>lock := True, pauseSlot := True\<rparr>
      else s\<lparr>lock := True, handlerPending := handlerPending s @ [OpPause]\<rparr>)"

definition callResume :: "'v cp \<Rightarrow> 'v cp" where
  "callResume s =
     (if lock s then rejectOp OpResume ''Operation in progress'' s
      else if isCanceled s then rejectOp OpResume ''Promise was canceled'' s
      else if isSettled s then rejectOp OpResume ''Promise was settled'' s
      else if isResumed s then resolveOp OpResume s
      else if \<not> resumeFn s then
        (let s1 = callResolvePause s; s2 = resolveOp OpResume s1
         in case resolveMain s2 of None \<Rightarrow> s2 | Some v \<Rightarrow> fulfillMain v s2)
      else s\<lparr>lock := True, handlerPending := handlerPending s @ [OpResume]\<rparr>)"

definition callCancel :: "'v cp \<Rightarrow> 'v cp" where
  "callCancel s =
     (if lock s then rejectOp OpCancel ''Operation in progress'' s
      else if isCanceled s then rejectOp OpCancel ''Promise was canceled'' s
      else if isSettled s then rejectOp OpCancel ''Promise was settled'' s
      else if \<not> cancelFn s then s\<lparr>lock := True, cancelSlot := True\<rparr>
      else s\<lparr>lock := True, handlerPending := handlerPending s @ [OpCancel]\<rparr>)"

text \<open>The callbacks chained on the operation promises.\<close>

fun runCallback :: "mtask \<Rightarrow> 'v cp \<Rightarrow> 'v cp" where
  "runCallback (Then OpPause) s = s\<lparr>lock := False, state := STATE_PAUSED\<rparr>"
| "runCallback (Then OpResume) s = s\<lparr>lock := False, state := STATE_RESUMED\<rparr>"
| "runCallback (Then OpCancel) s =
     (let s1 = s\<lparr>lock := False\<rparr>
      in if cancelFn s1 \<and> isSettled s1
         then s1\<lparr>microtasks := microtasks s1 @ [Catch OpCancel SettledDuringCancelHandler]\<rparr>
         else rejectMain ControllablePromiseCancelError (s1\<lparr>state := STATE_CANCELED\<rparr>))"
| "runCallback (Catch opn (ControllablePromisePreconditionError msg)) s = s"
| "runCallback (Catch opn e) s = s\<lparr>lock := False\<rparr>"

definition runMicrotask :: "'v cp \<Rightarrow> 'v cp" where
  "runMicrotask s =
     (case microtasks s of
        [] \<Rightarrow> s
      | m # rest \<Rightarrow> runCallback m (s\<lparr>microtasks := rest\<rparr>))"

text \<open>A handler calls the resolve or reject callback it was given.\<close>

definition handlerResolves :: "cp_op \<Rightarrow> 'v cp \<Rightarrow> 'v cp" where
  "handlerResolves opn s =
     (if opn \<in> set (handlerPending s)
      then s\<lparr>handlerPending := remove1 opn (handlerPending s),
             microtasks := microtasks s @ [Then opn]\<rparr>
      else s)"

definition handlerRejects :: "cp_op \<Rightarrow> string \<Rightarrow> 'v cp \<Rightarrow> 'v cp" where
  "handlerRejects opn msg s =
     (if opn \<in> set (handlerPending s)
      then s\<lparr>handlerPending := remove1 opn (handlerPending s),
             microtasks := microtasks s @ [Catch opn (ExecutorError msg)]\<rparr>
      else s)"

fun cp_step :: "'v cp_event \<Rightarrow> 'v cp \<Rightarrow> 'v cp" where
  "cp_step (ExecResolve v) s = execResolve v s"
| "cp_step (ExecReject msg) s = execReject msg s"
| "cp_step ExecOnPause s = s\<lparr>pauseFn := True\<rparr>"
| "cp_step ExecOnResume s = s\<lparr>resumeFn := True\<rparr>"
| "cp_step ExecOnCancel s = s\<lparr>cancelFn := True\<rparr>"
| "cp_step TimerFires s = timerFires s"
| "cp_step RunMicrotask s = runMicrotask s"
| "cp_step CallPause s = callPause s"
| "cp_step CallResume s = callResume s"
| "cp_step CallCancel s = callCancel s"
| "cp_step (HandlerResolves opn) s = handlerResolves opn s"
| "cp_step (HandlerRejects opn msg) s = handlerRejects opn msg s"

definition cp_run :: "'v cp_event list \<Rightarrow> 'v cp \<Rightarrow> 'v cp" where
  "cp_run es s = foldl (\<lambda>s e. cp_step e s) s es"

section \<open>Update queue\<close>

text \<open>
  \<^verbatim>\<open>lib/updater/updateQueue.js\<close> and the part of the \<^verbatim>\<open>Update\<close> class the queue drives. The
  \<^verbatim>\<open>Update\<close> objects live in a store, \<open>objects\<close>, and are referred to by their index in it, so
  that the queue array \<open>updates\<close> and \<open>currentUpdate\<close> hold references to shared objects, as in the
  source. Of an \<^verbatim>\<open>Update\<close> the record keeps the fields that the queue reads and that
  \<^verbatim>\<open>start\<close>, \<^verbatim>\<open>pause\<close>, \<^verbatim>\<open>resume\<close> and \<^verbatim>\<open>stop\<close> write; \<open>u_pausedByUserArg\<close> is the argument
  captured by the \<^verbatim>\<open>then\<close> callback of a pause that is under way.
\<close>

record update_obj =
  u_gameUid :: string
  u_releaseName :: string
  u_isRunning :: bool
  u_isPaused :: bool
  u_isPausedByUser :: bool
  u_isPausing :: bool
  u_isResuming :: bool
  u_isStopped :: bool
  u_isQueued :: bool
  u_pausedByUserArg :: bool

datatype queue_error =
    CannotRemoveRunning
  | CannotRemoveNotFound
  | CannotSetIndexNotFound
  | CannotSetIndexInvalid
  | NoCurrentUpdate
  | CannotStartStopped
  | TypeError

datatype 'a result = Ok 'a | Throw queue_error 'a | OutOfFuel

record update_queue =
  objects :: "update_obj list"
  updates :: "nat list"
  currentUpdate :: "nat option"
  q_isPaused :: bool


definition obj :: "update_queue \<Rightarrow> nat \<Rightarrow> update_obj" where
  "obj q u = objects q ! u"

definition modify :: "nat \<Rightarrow> (update_obj \<Rightarrow> update_obj) \<Rightarrow> update_queue \<Rightarrow> update_queue" where
  "modify u f q = q\<lparr>objects := (objects q)[u := f (objects q ! u)]\<rparr>"

text \<open>The constructor of \<^verbatim>\<open>Update\<close>, as far as these fields go.\<close>

definition newUpdate :: "string \<Rightarrow> string \<Rightarrow> bool \<Rightarrow> update_obj" where
  "newUpdate gameUid releaseName isPausedByUser =
     \<lparr>u_gameUid = gameUid, u_releaseName = releaseName, u_isRunning = False,
      u_isPaused = isPausedByUser, u_isPausedByUser = isPausedByUser, u_isPausing = False,
      u_isResuming = False, u_isStopped = False, u_isQueued = True, u_pausedByUserArg = False\<rparr>"

text \<open>
  \<^verbatim>\<open>Update.start\<close>, \<^verbatim>\<open>Update.pause\<close>, \<^verbatim>\<open>Update.resume\<close>. \<^verbatim>\<open>pause\<close> sets \<^verbatim>\<open>_isPausing\<close> and
  leaves the rest to the \<^verbatim>\<open>then\<close> callback of the action's pause promise, \<open>pauseDone\<close>, which
  runs when that promise resolves: for an action without a pause handler, when the action
  itself resolves. The action's resume promise is settled by the call of \<^verbatim>\<open>resume()\<close> itself
  (directly, or through handlers that wait for promises already resolved), so the \<^verbatim>\<open>then\<close>
  callback of \<^verbatim>\<open>Update.resume\<close> runs in the same turn of the event loop, before any timer or
  IPC event reaches the queue; \<open>update_resume\<close> applies it at once, for a resume that the action
  accepts. (When the action rejects the resume, \<^verbatim>\<open>_isPaused\<close> stays set and the update is
  ended through \<^verbatim>\<open>end(error)\<close>, which stops it.)
\<close>

definition isPauseAllowed :: "update_obj \<Rightarrow> bool" where
  "isPauseAllowed u \<longleftrightarrow> u_isRunning u \<and> \<not> u_isPausing u \<and> \<not> u_isPaused u"

definition isResumeAllowed :: "update_obj \<Rightarrow> bool" where
  "isResumeAllowed u \<longleftrightarrow> u_isRunning u \<and> \<not> u_isResuming u \<and> u_isPaused u"

definition update_start :: "nat \<Rightarrow> update_queue \<Rightarrow> update_queue result" where
  "update_start u q =
     (if u_isRunning (obj q u) then Ok q
      else if u_isStopped (obj q u) then Throw CannotStartStopped q
      else Ok (modify u (\<lambda>x. x\<lparr>u_isRunning := True\<rparr>) q))"

definition update_pause :: "bool \<Rightarrow> nat \<Rightarrow> update_queue \<Rightarrow> update_queue" where
  "update_pause pausedByUser u q =
     (if \<not> isPauseAllowed (obj q u) then q
      else modify u (\<lambda>x. x\<lparr>u_isPausing := True, u_pausedByUserArg := pausedByUser\<rparr>) q)"


definition update_resume :: "nat \<Rightarrow> update_queue \<Rightarrow> update_queue" where
  "update_resume u q =
     (if \<not> isResumeAllowed (obj q u) then q
      else modify u (\<lambda>x. x\<lparr>u_isResuming := False, u_isPaused := False,
                           u_isPausedByUser := False\<rparr>) q)"

definition setIsQueued :: "bool \<Rightarrow> nat \<Rightarrow> update_queue \<Rightarrow> update_queue" where
  "setIsQueued v u q = modify u (\<lambda>x. x\<lparr>u_isQueued := v\<rparr>) q"

text \<open>\<^verbatim>\<open>Array.indexOf\<close> and the two uses of \<^verbatim>\<open>Array.splice\<close>.\<close>

fun index_of :: "'a \<Rightarrow> 'a list \<Rightarrow> nat option" where
  "index_of x [] = None"
| "index_of x (y # ys) = (if x = y then Some 0 else map_option Suc (index_of x ys))"

definition remove_nth :: "nat \<Rightarrow> 'a list \<Rightarrow> 'a list" where
  "remove_nth i xs = take i xs @ drop (Suc i) xs"

definition insert_at :: "nat \<Rightarrow> 'a \<Rightarrow> 'a list \<Rightarrow> 'a list" where
  "insert_at i x xs = take i xs @ x # drop i xs"


definition clearCurrentUpdate :: "bool \<Rightarrow> update_queue \<Rightarrow> update_queue result" where
  "clearCurrentUpdate pausedByUser q =
     (case currentUpdate q of
        None \<Rightarrow> Throw NoCurrentUpdate q
      | Some c \<Rightarrow>
          (let q1 = setIsQueued True c q;
               q2 = (if \<not> u_isPaused (obj q1 c) then update_pause pausedByUser c q1 else q1)
           in Ok (q2\<lparr>currentUpdate := None\<rparr>)))"

text \<open>
  \<^verbatim>\<open>startFirstUpdateInQueue\<close> and \<^verbatim>\<open>setIndex\<close> call each other. The first argument bounds the
  depth of these calls; \<open>OutOfFuel\<close> is the result of a call that would exceed it.
  \<^verbatim>\<open>this.updates[0]\<close> of an empty array is \<^verbatim>\<open>undefined\<close>, and reading a property of it throws
  a TypeError. The index passed to \<^verbatim>\<open>setIndex\<close> is an integer.
\<close>

fun startFirstUpdateInQueue :: "nat \<Rightarrow> bool \<Rightarrow> update_queue \<Rightarrow> update_queue result"
and setIndex :: "nat \<Rightarrow> nat option \<Rightarrow> int \<Rightarrow> bool \<Rightarrow> bool \<Rightarrow> update_queue \<Rightarrow> update_queue result"
where
  "startFirstUpdateInQueue fuel resumedByUser q =
     (case updates q of
        [] \<Rightarrow> (if resumedByUser then Throw TypeError (q\<lparr>currentUpdate := None\<rparr>)
               else Throw TypeError q)
      | u # _ \<Rightarrow>
          if \<not> resumedByUser \<and> u_isPausedByUser (obj q u) then
            (case find (\<lambda>n. \<not> u_isPausedByUser (obj q n) \<and> \<not> u_isPausing (obj q n)) (updates q) of
               None \<Rightarrow> Ok q
             | Some nextUpdate \<Rightarrow>
                 (case fuel of
                    0 \<Rightarrow> OutOfFuel
                  | Suc k \<Rightarrow> setIndex k (Some nextUpdate) 0 False False q))
          else
            (let q1 = setIsQueued False u (q\<lparr>currentUpdate := Some u\<rparr>)
             in if u_isRunning (obj q1 u) \<and> u_isPaused (obj q1 u)
                then Ok (update_resume u q1)
                else update_start u q1))"
| "setIndex fuel upd newIndex pausedByUser resumedByUser q =
     (case upd of
        None \<Rightarrow> Throw CannotSetIndexNotFound q
      | Some u \<Rightarrow>
          (case index_of u (updates q) of
             None \<Rightarrow> Throw CannotSetIndexNotFound q
           | Some currentIndex \<Rightarrow>
               if newIndex < 0 \<or> newIndex \<ge> int (length (updates q))
               then Throw CannotSetIndexInvalid q
               else
                 (let q1 = (if int currentIndex \<noteq> newIndex
                            then q\<lparr>updates := insert_at (nat newIndex) u
                                                 (remove_nth currentIndex (updates q))\<rparr>
                            else q)
                  in if newIndex = 0 \<or> currentIndex = 0
                     then
                       (case (case currentUpdate q1 of
                                None \<Rightarrow> Ok q1
                              | Some _ \<Rightarrow> clearCurrentUpdate pausedByUser q1) of
                          Ok q2 \<Rightarrow>
                            if \<not> q_isPaused q2 then startFirstUpdateInQueue fuel resumedByUser q2
                            else Ok q2
                        | Throw e q2 \<Rightarrow> Throw e q2
                        | OutOfFuel \<Rightarrow> OutOfFuel)
                     else Ok q1)))"

definition callDepth :: nat where
  "callDepth = 2"

text \<open>
  \<^verbatim>\<open>add\<close> is called by the constructor of \<^verbatim>\<open>Update\<close> with the object under construction; the
  model creates the object and adds it.
\<close>

definition add :: "string \<Rightarrow> string \<Rightarrow> bool \<Rightarrow> update_queue \<Rightarrow> update_queue result" where
  "add gameUid releaseName isPausedByUser q =
     (let u = length (objects q);
          q1 = q\<lparr>objects := objects q @ [newUpdate gameUid releaseName isPausedByUser]\<rparr>;
          q2 = q1\<lparr>updates := updates q1 @ [u]\<rparr>
      in if (case currentUpdate q2 of None \<Rightarrow> True | Some c \<Rightarrow> u_isPausedByUser (obj q2 c))
            \<and> \<not> q_isPaused q2
         then startFirstUpdateInQueue callDepth False q2
         else Ok q2)"















text \<open>
  Notions used to state the invariant of the queue. An update is \<^emph>\<open>inactive\<close> when it is not
  running, or paused, or in the course of pausing. A state is \<open>good\<close> when the queue holds
  each update once, holds only updates that exist, and an update paused by the user is paused;
  it is \<open>quiet\<close> outside a set of updates when every queued update outside the set is
  inactive. The invariant \<open>qinv\<close> is: good, and quiet outside the current update. \<open>res_ok\<close>
  lifts a predicate to the result of an operation, the state it returns or the state at its
  throw. \<open>activeUpdates\<close> are the queued updates that are running and not paused,
  \<open>workingUpdates\<close> those of them that are not pausing.
\<close>

definition inactive :: "update_obj \<Rightarrow> bool" where
  "inactive x \<longleftrightarrow> \<not> u_isRunning x \<or> u_isPaused x \<or> u_isPausing x"

definition good :: "update_queue \<Rightarrow> bool" where
  "good q \<longleftrightarrow> distinct (updates q) \<and> (\<forall>u\<in>set (updates q). u < length (objects q))
     \<and> (\<forall>u<length (objects q). u_isPausedByUser (obj q u) \<longrightarrow> u_isPaused (obj q u))"

definition quiet :: "update_queue \<Rightarrow> nat set \<Rightarrow> bool" where
  "quiet q X \<longleftrightarrow> (\<forall>u\<in>set (updates q). u \<notin> X \<longrightarrow> inactive (obj q u))"

definition qinv :: "update_queue \<Rightarrow> bool" where
  "qinv q \<longleftrightarrow> good q \<and> quiet q (set_option (currentUpdate q))"




section \<open>Verified properties\<close>

subsection \<open>Queue clearing on fragment change\<close>

lemma actionCanBeCanceled_iff:
  "actionCanBeCanceledOnFragmentsChange t \<longleftrightarrow> t \<notin> set nonCancelableTypes"
  unfolding actionCanBeCanceledOnFragmentsChange_def nonCancelableTypes_def action_type_defs
  by (auto split: option.splits if_splits)

lemma clearQueueLoop_filter:
  "n \<le> length q \<Longrightarrow>
   clearQueueLoop n q =
     filter (\<lambda>a. \<not> actionCanBeCanceledOnFragmentsChange (a_type a)) (take n q) @ drop n q"
proof (induction n arbitrary: q)
  case 0 then show ?case by simp
next
  case (Suc n)
  then have n: "n < length q" by simp
  show ?case
  proof (cases "actionCanBeCanceledOnFragmentsChange (a_type (q ! n))")
    case True
    have "n \<le> length (take n q @ drop (Suc n) q)" using n by simp
    from Suc.IH[OF this] True n show ?thesis
      by (simp add: take_Suc_conv_app_nth)
  next
    case False
    from Suc.IH[of q] False n show ?thesis
      by (simp add: take_Suc_conv_app_nth Cons_nth_drop_Suc)
  qed
qed

text \<open>
  C4, as stated, at a concrete queue: a queued GetLocalHashes action, one of the five types the
  claim lists as preserved, is removed when the queue is cleared.
\<close>

theorem C4_getLocalHashes_removed:
  "clearQueueOnFragmentsChange
     [createQueuedAction GET_REMOTE_HASHES, createQueuedAction GET_LOCAL_HASHES,
      createQueuedAction LOAD_CONFIGURATION]
   = [createQueuedAction GET_REMOTE_HASHES, createQueuedAction LOAD_CONFIGURATION]"
  by (simp add: clearQueueOnFragmentsChange_def clearQueueLoop_filter actionCanBeCanceled_iff
      nonCancelableTypes_def createQueuedAction_def action_type_defs)

text \<open>
  C4, amended: clearing the queue on a fragment change keeps, in their order, exactly the queued
  actions of the four types GetRemoteHashes, LoadConfiguration, CheckConfiguration and
  WriteReleaseInfos, and removes every other queued action, those of type GetLocalHashes
  included.
\<close>

theorem C4_clearQueue_keeps_four_types:
  "clearQueueOnFragmentsChange q =
     filter (\<lambda>a. a_type a \<in> {GET_REMOTE_HASHES, LOAD_CONFIGURATION, CHECK_CONFIGURATION,
                              WRITE_RELEASE_INFOS}) q"
  by (simp add: clearQueueOnFragmentsChange_def clearQueueLoop_filter actionCanBeCanceled_iff
      nonCancelableTypes_def)

theorem C4_clearQueue_witness:
  "clearQueueOnFragmentsChange
     [createQueuedAction SAVE_HASHES, createQueuedAction CHECK_CONFIGURATION,
      createQueuedAction GET_LOCAL_HASHES, createQueuedAction WRITE_RELEASE_INFOS]
   = [createQueuedAction CHECK_CONFIGURATION, createQueuedAction WRITE_RELEASE_INFOS]"
  using C4_clearQueue_keeps_four_types
    [of "[createQueuedAction SAVE_HASHES, createQueuedAction CHECK_CONFIGURATION,
          createQueuedAction GET_LOCAL_HASHES, createQueuedAction WRITE_RELEASE_INFOS]"]
  by (simp add: createQueuedAction_def action_type_defs)

subsection \<open>Fetcher: a resumed download whose server does not accept ranges\<close>

text \<open>
  C7, as stated, at a concrete download: the temp file holds 3 of the 8 expected bytes, the
  request carries \<^verbatim>\<open>Range: bytes=3-\<close>, and the server answers 200 without an
  \<^verbatim>\<open>Accept-Ranges\<close> header. The promise is rejected with "Partial content not supported";
  the temp file is still there and no second request has been issued.
\<close>

theorem C7_no_accept_ranges_rejects:
  "onResponse 8 False False None \<lparr>status = 200, acceptRanges = None\<rparr>
     (startElectronFetch (initialFetchState (Some 3)))
   = (Rejected PartialContentNotSupported,
      \<lparr>tmpFile = Some 3, rangeHeader = Some 3, shouldResume = True, dlSize = 3, rs = False,
        requests = [Some 3]\<rparr>)"
  by (simp add: onResponse_def startElectronFetch_def initialFetchState_def)

text \<open>
  C7, amended: for a download resumed with a non-empty partial temp file of \<open>n\<close> bytes, \<open>n\<close>
  other than the expected size, the request carries \<^verbatim>\<open>Range: bytes=n-\<close>; when the promise is
  neither settled nor paused and the response has status 200 or 206 and no
  \<^verbatim>\<open>Accept-Ranges: bytes\<close>, the fetcher rejects with "Partial content not supported" and
  leaves the temp file, the headers and the list of issued requests as they were.
\<close>

theorem C7_resume_without_accept_ranges:
  assumes "tmpFile st0 = Some n" "n \<noteq> 0" "n \<noteq> expectedSize" "\<not> rs st0"
    and "st = startElectronFetch st0"
    and "\<not> cpSettled" "\<not> cpPaused"
    and "status res = 200 \<or> status res = 206"
    and "acceptRanges res \<noteq> Some ''bytes''"
  shows "hd (requests st) = Some n
       \<and> onResponse expectedSize cpSettled cpPaused unlinkError res st
           = (Rejected PartialContentNotSupported, st)"
  using assms by (auto simp: onResponse_def startElectronFetch_def Let_def)

theorem C7_resume_without_accept_ranges_witness:
  "hd (requests (startElectronFetch (initialFetchState (Some 3)))) = Some 3
   \<and> onResponse 8 False False None \<lparr>status = 206, acceptRanges = Some ''none''\<rparr>
       (startElectronFetch (initialFetchState (Some 3)))
     = (Rejected PartialContentNotSupported, startElectronFetch (initialFetchState (Some 3)))"
  using C7_resume_without_accept_ranges
    [of "initialFetchState (Some 3)" 3 8 "startElectronFetch (initialFetchState (Some 3))"
      False False "\<lparr>status = 206, acceptRanges = Some ''none''\<rparr>" None]
  by (simp add: initialFetchState_def)

text \<open>The path that does discard the temp file and start again from byte zero: status 416.\<close>

lemma onResponse_416_retries_from_zero:
  assumes "\<not> cpSettled" "\<not> cpPaused" "\<not> rs st" "tmpFile st \<noteq> Some expectedSize"
    and "status res = 416"
    and "onResponse expectedSize cpSettled cpPaused None res st = (out, st')"
  shows "out = Retried \<and> tmpFile st' = None \<and> hd (requests st') = None"
  using assms by (auto simp: onResponse_def cleanAndRetry_def startElectronFetch_def Let_def)

subsection \<open>Repository endpoints\<close>

declare bits.simps [simp del]





text \<open>
  The rounding of the product shows at \<^verbatim>\<open>Math.random() = 0.5714285714285714\<close>, which is
  \<open>2573485501354569 \<times> 2\<^sup>-\<^sup>5\<^sup>2\<close>, and a list of seven endpoints: the exact product is below 4 and
  rounds to 4.
\<close>

lemma randomIndex_rounds:
  "randomIndex \<lparr>mantissa = 2573485501354569, exponent = 52\<rparr> 7 = 4
   \<and> 2573485501354569 * 7 div (2::nat) ^ 52 = 3"
  by (simp add: randomIndex_def roundedProduct_def Let_def bits.simps)




subsection \<open>Diff engine: loops that may throw\<close>


lemma js_get_Own: "js_get al k = Own v \<longleftrightarrow> map_of al k = Some v"
  by (auto simp: js_get_def split: option.splits)



subsection \<open>Diff engine: the buckets the first pass builds\<close>










subsection \<open>Diff engine: the deletion pass\<close>










subsection \<open>Diff engine: the pack pass\<close>













lemma checkPack_hashes: "d_hashes (checkPack fd k pk) = d_hashes fd"
  by (simp add: checkPack_def Let_def)


lemma cpf_Nil: "checkPacksInFragment [] fd = fd"
  by (simp add: checkPacksInFragment_def)

lemma cpf_Cons: "checkPacksInFragment (p # ps) fd = checkPacksInFragment ps (checkPack fd (fst p) (snd p))"
  by (simp add: checkPacksInFragment_def)

lemma cpf_hashes: "d_hashes (checkPacksInFragment ps fd) = d_hashes fd"
  by (induction ps arbitrary: fd) (simp_all add: cpf_Nil cpf_Cons checkPack_hashes)














subsection \<open>Diff engine: the deletion pass at concrete manifests\<close>

text \<open>
  A leftover local file whose name is that of a member of \<^verbatim>\<open>Object.prototype\<close>: the local
  fragment A lists the files \<^verbatim>\<open>constructor\<close> and g, the remote fragment A is empty. The
  bucket of A receives the deletion entry of g only: \<^verbatim>\<open>files['constructor']\<close> of a bucket is
  the inherited function, which \<^verbatim>\<open>isFileMarkedForDownload\<close> takes for an entry.
\<close>

lemma leftover_named_constructor_not_recorded:
  "createPromise False [''A'']
     [(''A'', \<lparr>files = [(''constructor'', \<lparr>mf_hash = ''h'', mf_size = 4, mf_executable = False\<rparr>),
                         (''g'', \<lparr>mf_hash = ''k'', mf_size = 1, mf_executable = False\<rparr>)],
               packs = None, archives = None\<rparr>)]
     [(''A'', \<lparr>files = [], packs = None, archives = None\<rparr>)]
   = Inr [(''A'', \<lparr>d_files = [(''g'', createDeletedFile)], d_hashes = [], d_archives = []\<rparr>)]"
  by code_simp

text \<open>
  C5 at a concrete input: the local fragments A and B both list the file f, the remote
  fragments A and B are empty and both are selected. After the first pass f remains in both
  local fragments and no fragment of the diff marks it for download. The deletion pass records
  f as \<^verbatim>\<open>{size: 0, hash: null}\<close> in the bucket of A; when it comes to B,
  \<^verbatim>\<open>isFileMarkedForDownload\<close> finds the deletion entry just written under f in the bucket of
  A, takes it for a file to be downloaded, and the bucket of B, the fragment of the second
  listing, receives no entry.
\<close>

theorem C5_second_listing_not_recorded:
  "createPromise False [''A'', ''B'']
     [(''A'', \<lparr>files = [(''f'', \<lparr>mf_hash = ''h'', mf_size = 4, mf_executable = False\<rparr>)],
               packs = None, archives = None\<rparr>),
      (''B'', \<lparr>files = [(''f'', \<lparr>mf_hash = ''h'', mf_size = 4, mf_executable = False\<rparr>)],
               packs = None, archives = None\<rparr>)]
     [(''A'', \<lparr>files = [], packs = None, archives = None\<rparr>),
      (''B'', \<lparr>files = [], packs = None, archives = None\<rparr>)]
   = Inr [(''A'', \<lparr>d_files = [(''f'', createDeletedFile)], d_hashes = [], d_archives = []\<rparr>),
          (''B'', \<lparr>d_files = [], d_hashes = [], d_archives = []\<rparr>)]"
  by code_simp

subsection \<open>Diff engine: a manifest diffed against itself\<close>

text \<open>
  C3 at a concrete input: the manifest L has the fragments \<^verbatim>\<open>main\<close> and \<^verbatim>\<open>constructor\<close>, one
  file each, and the selection is \<^verbatim>\<open>main\<close>. With local = remote = L the first pass finds
  nothing to download. For the installed fragment outside the selection,
  \<^verbatim>\<open>createEmptyFragmentIfNeeded\<close> creates no bucket, because \<^verbatim>\<open>this.diff['constructor']\<close> is
  the inherited function and not falsy; the deletion pass then assigns to
  \<^verbatim>\<open>this.diff['constructor'].files['b']\<close>, which throws a \<^verbatim>\<open>TypeError\<close>, and the promise is
  rejected: the run yields no diff.
\<close>

theorem C3_unselected_fragment_named_constructor:
  "createPromise False [''main'']
     [(''main'', \<lparr>files = [(''a'', \<lparr>mf_hash = ''h'', mf_size = 4, mf_executable = False\<rparr>)],
                  packs = None, archives = None\<rparr>),
      (''constructor'', \<lparr>files = [(''b'', \<lparr>mf_hash = ''k'', mf_size = 1, mf_executable = False\<rparr>)],
                  packs = None, archives = None\<rparr>)]
     [(''main'', \<lparr>files = [(''a'', \<lparr>mf_hash = ''h'', mf_size = 4, mf_executable = False\<rparr>)],
                  packs = None, archives = None\<rparr>),
      (''constructor'', \<lparr>files = [(''b'', \<lparr>mf_hash = ''k'', mf_size = 1, mf_executable = False\<rparr>)],
                  packs = None, archives = None\<rparr>)]
   = Inl PropertyOfUndefined"
  by code_simp

subsection \<open>Repair action\<close>
















subsection \<open>Controllable promise: a resolve that arrives while paused\<close>

lemmas cp_defs = execResolve_def execReject_def timerFires_def runMicrotask_def callPause_def
  callCancel_def callResume_def handlerResolves_def handlerRejects_def Let_def callResolvePause_def
  callResolveCancel_def callRejectPause_def callRejectCancel_def rejectMain_def fulfillMain_def
  isPaused_def isCanceled_def isResumed_def rejectOp_def resolveOp_def isSettled_def
  callResolveMainPromise_def

lemma runCallback_not_fulfilling:
  "promise (runCallback m s) = Fulfilled v \<Longrightarrow> promise s = Fulfilled v"
  by (induction m s rule: runCallback.induct) (auto simp: cp_defs split: if_splits)

lemma runCallback_state:
  "state (runCallback m s) = STATE_FULFILLED \<Longrightarrow> state s = STATE_FULFILLED"
  by (induction m s rule: runCallback.induct) (auto simp: cp_defs split: if_splits)

lemma paused_step_not_fulfilling:
  assumes "state s = STATE_PAUSED" "e \<noteq> CallResume"
  shows "promise (cp_step e s) = Fulfilled v \<longrightarrow> promise s = Fulfilled v"
  using assms
  by (cases e)
     (auto simp: cp_defs split: list.splits if_splits dest: runCallback_not_fulfilling)

lemma paused_step_state:
  assumes "state s = STATE_PAUSED" "e \<noteq> CallResume"
  shows "state (cp_step e s) \<noteq> STATE_FULFILLED"
  using assms
  by (cases e)
     (auto simp: cp_defs split: list.splits if_splits dest: runCallback_state)

lemma paused_timer_defers:
  assumes "state s = STATE_PAUSED" "timers s = v # rest"
  shows "cp_step TimerFires s = s\<lparr>timers := rest, resolveMain := Some v\<rparr>"
  using assms by (simp add: cp_defs)

lemma resume_fulfils_deferred:
  assumes "state s = STATE_PAUSED" "\<not> lock s" "promise s = Pending" "resolveMain s = Some v"
    "\<not> resumeFn s"
  shows "promise (cp_step CallResume s) = Fulfilled v"
  using assms by (simp add: cp_defs)

lemma resume_with_handler:
  assumes "state s = STATE_PAUSED" "\<not> lock s" "resumeFn s"
  shows "cp_step CallResume s = s\<lparr>lock := True, handlerPending := handlerPending s @ [OpResume]\<rparr>"
  using assms by (simp add: cp_defs)

text \<open>
  The path of \<^verbatim>\<open>resume()\<close> for promises without a resume handler, which does what the
  comment in \<^verbatim>\<open>resolve\<close> announces (\<^emph>\<open>we defer the fulfillment to the next resume()\<close>): while
  the promise is paused no step other than a call of \<^verbatim>\<open>resume()\<close> fulfils \<^verbatim>\<open>this.promise\<close> or
  sets the state to Fulfilled; the timer of a \<^verbatim>\<open>resolve(v)\<close> that fires stores the fulfilment
  instead of performing it; and a call of \<^verbatim>\<open>resume()\<close> that finds the lock free and no resume
  handler performs the stored fulfilment with the stored value.
\<close>

lemma paused_promise_defers:
  "(state s = STATE_PAUSED \<and> e \<noteq> CallResume \<and> promise s = Pending \<longrightarrow>
      promise (cp_step e s) \<noteq> Fulfilled v \<and> state (cp_step e s) \<noteq> STATE_FULFILLED)
   \<and> (state s = STATE_PAUSED \<and> timers s = v # rest \<longrightarrow>
      cp_step TimerFires s = s\<lparr>timers := rest, resolveMain := Some v\<rparr>)
   \<and> (state s = STATE_PAUSED \<and> \<not> lock s \<and> promise s = Pending \<and> resolveMain s = Some v
        \<and> \<not> resumeFn s \<longrightarrow>
      promise (cp_step CallResume s) = Fulfilled v)"
proof (intro conjI impI)
  assume a: "state s = STATE_PAUSED \<and> e \<noteq> CallResume \<and> promise s = Pending"
  show "promise (cp_step e s) \<noteq> Fulfilled v"
    using paused_step_not_fulfilling[of s e v] a by auto
  show "state (cp_step e s) \<noteq> STATE_FULFILLED"
    using paused_step_state[of s e] a by simp
next
  assume "state s = STATE_PAUSED \<and> timers s = v # rest"
  then show "cp_step TimerFires s = s\<lparr>timers := rest, resolveMain := Some v\<rparr>"
    using paused_timer_defers[of s v rest] by simp
next
  assume "state s = STATE_PAUSED \<and> \<not> lock s \<and> promise s = Pending \<and> resolveMain s = Some v
        \<and> \<not> resumeFn s"
  then show "promise (cp_step CallResume s) = Fulfilled v"
    using resume_fulfils_deferred[of s v] by simp
qed

lemma resume_without_handler_fulfils:
  "promise (cp_run [CallPause, ExecResolve 7, RunMicrotask, TimerFires]
              (newControllablePromise :: nat cp)) = Pending
   \<and> promise (cp_run [CallPause, ExecResolve 7, RunMicrotask, TimerFires, CallResume]
              (newControllablePromise :: nat cp)) = Fulfilled 7"
  by code_simp

text \<open>
  C6 at a concrete promise whose executor registers a pause and a resume handler (as the fetch
  module does). The promise is paused, the executor calls \<^verbatim>\<open>resolve(7)\<close> and the timer fires
  during the paused interval, so the fulfilment is deferred. Then \<^verbatim>\<open>resume()\<close> is called and
  its handler resolves: the promise is resumed, nothing is left to run, and \<^verbatim>\<open>this.promise\<close>
  is still pending. The branch of \<^verbatim>\<open>resume()\<close> that runs the handler never calls
  \<^verbatim>\<open>this.resolveMain()\<close>, which the branch without handler does; the fulfilment that C6 and
  the comment in the code promise for the next \<^verbatim>\<open>resume()\<close> does not happen.
\<close>

theorem C6_resume_with_handler_never_fulfils:
  "state (cp_run [ExecOnPause, ExecOnResume, CallPause, HandlerResolves OpPause, RunMicrotask]
            (newControllablePromise :: nat cp)) = STATE_PAUSED
   \<and> cp_run [ExecOnPause, ExecOnResume, CallPause, HandlerResolves OpPause, RunMicrotask,
              ExecResolve 7, TimerFires, CallResume, HandlerResolves OpResume, RunMicrotask]
        (newControllablePromise :: nat cp)
     = \<lparr>state = STATE_RESUMED, lock = False, promise = Pending, resolveMain = Some 7,
        pauseSlot = False, cancelSlot = False, pauseFn = True, resumeFn = True, cancelFn = False,
        handlerPending = [], timers = [], microtasks = []\<rparr>"
  by code_simp

subsection \<open>Update queue: the updates at work\<close>

declare startFirstUpdateInQueue.simps [simp del] setIndex.simps [simp del]








lemma obj_modify:
  "obj (modify u f q) v = (if v = u \<and> u < length (objects q) then f (obj q u) else obj q v)"
  by (cases "u < length (objects q)") (auto simp: obj_def modify_def nth_list_update list_update_beyond)

lemma modify_frame [simp]:
  "updates (modify u f q) = updates q"
  "currentUpdate (modify u f q) = currentUpdate q"
  "q_isPaused (modify u f q) = q_isPaused q"
  "length (objects (modify u f q)) = length (objects q)"
  by (simp_all add: modify_def)








lemma update_pause_frame [simp]:
  "updates (update_pause b c q) = updates q"
  "currentUpdate (update_pause b c q) = currentUpdate q"
  "q_isPaused (update_pause b c q) = q_isPaused q"
  "length (objects (update_pause b c q)) = length (objects q)"
  "u_isPausedByUser (obj (update_pause b c q) v) = u_isPausedByUser (obj q v)"
  by (simp_all add: update_pause_def obj_modify)



lemma setIsQueued_frame [simp]:
  "updates (setIsQueued b c q) = updates q"
  "currentUpdate (setIsQueued b c q) = currentUpdate q"
  "q_isPaused (setIsQueued b c q) = q_isPaused q"
  "length (objects (setIsQueued b c q)) = length (objects q)"
  "u_isPausedByUser (obj (setIsQueued b c q) v) = u_isPausedByUser (obj q v)"
  "u_isPaused (obj (setIsQueued b c q) v) = u_isPaused (obj q v)"
  "u_isRunning (obj (setIsQueued b c q) v) = u_isRunning (obj q v)"
  "u_isPausing (obj (setIsQueued b c q) v) = u_isPausing (obj q v)"
  by (simp_all add: setIsQueued_def obj_modify)



lemma update_resume_frame [simp]:
  "updates (update_resume c q) = updates q"
  "currentUpdate (update_resume c q) = currentUpdate q"
  "q_isPaused (update_resume c q) = q_isPaused q"
  "length (objects (update_resume c q)) = length (objects q)"
  by (simp_all add: update_resume_def)



lemma current_frame [simp]:
  "good (q\<lparr>currentUpdate := c\<rparr>) = good q"
  "quiet (q\<lparr>currentUpdate := c\<rparr>) X = quiet q X"
  "obj (q\<lparr>currentUpdate := c\<rparr>) = obj q"
  "good (q\<lparr>q_isPaused := b\<rparr>) = good q"
  "quiet (q\<lparr>q_isPaused := b\<rparr>) X = quiet q X"
  "obj (q\<lparr>q_isPaused := b\<rparr>) = obj q"
  "qinv (q\<lparr>q_isPaused := b\<rparr>) = qinv q"
  by (simp_all add: good_def quiet_def obj_def qinv_def fun_eq_iff)









































end
